theory Spec2Isabelle
  imports Complex_Main
begin

section \<open>Data model of main.ts\<close>

text \<open>
  The TypeScript \<^verbatim>\<open>number\<close> is modelled as an exact \<open>real\<close>: additions and
  comparisons are those of the source, without rounding, NaN or infinities. The rounding
  of the source's doubles is added, for \<^verbatim>\<open>MainCharacter.update\<close>, in a section of its own.
  Field names follow the source; where two classes share a field name the later one
  carries a prefix (\<open>state_height\<close> is \<^verbatim>\<open>state.height\<close>, \<open>dim_y\<close> is
  \<^verbatim>\<open>Dimension.y\<close>, \<open>rect_color\<close> is \<^verbatim>\<open>RectGameObject.color\<close>).
\<close>

datatype status = GAME | LOOSE

record GameState =
  cameraOffset :: real
  state_height :: real
  state_width :: real
  status :: status
  points :: real

record GameObject =
  x :: real
  y :: real
  width :: real
  height :: real
  color :: string

record Dimension =
  dim_x :: real
  dim_y :: real
  dim_width :: real
  dim_height :: real

record RectGameObject =
  dimension :: Dimension
  rect_color :: string

text \<open>\<^verbatim>\<open>class MainCharacter extends GameObject\<close>; the private image only serves
  rendering and gives the constructor its width and height.\<close>

record MainCharacter = GameObject +
  velocityX :: real
  velocityY :: real
  gravity :: real
  speed :: real
  jumpStrength :: real
  onGround :: bool

record Level =
  platforms :: "RectGameObject list"
  startScrolling :: bool

subsection \<open>Constructors\<close>

definition new_RectGameObject :: "real \<Rightarrow> real \<Rightarrow> real \<Rightarrow> real \<Rightarrow> string \<Rightarrow> RectGameObject" where
  "new_RectGameObject px py w h col =
     \<lparr>dimension = \<lparr>dim_x = px, dim_y = py, dim_width = w, dim_height = h\<rparr>,
      rect_color = col\<rparr>"

definition getDimension :: "RectGameObject \<Rightarrow> Dimension" where
  "getDimension p = dimension p"

definition new_MainCharacter :: "real \<Rightarrow> real \<Rightarrow> real \<Rightarrow> real \<Rightarrow> MainCharacter" where
  "new_MainCharacter px py image_width image_height =
     \<lparr>x = px, y = py, width = image_width, height = image_height, color = ''red'',
      velocityX = 0, velocityY = 0, gravity = 0.7, speed = 5, jumpStrength = - 15,
      onGround = False\<rparr>"

definition new_Level :: Level where
  "new_Level = \<lparr>platforms = [], startScrolling = False\<rparr>"

section \<open>MainCharacter\<close>

subsection \<open>update\<close>

text \<open>Lines 123-125: gravity.\<close>

definition update_gravity :: "MainCharacter \<Rightarrow> MainCharacter" where
  "update_gravity c =
     (if \<not> onGround c then c\<lparr>velocityY := velocityY c + gravity c\<rparr> else c)"

text \<open>Lines 127-129: the loss check, on the position the character enters the tick with.\<close>

definition update_loose :: "MainCharacter \<Rightarrow> GameState \<Rightarrow> GameState" where
  "update_loose c state =
     (if y c \<ge> cameraOffset state + state_height state then state\<lparr>status := LOOSE\<rparr>
      else state)"

text \<open>Lines 131-136: horizontal move and wrap.\<close>

definition update_x :: "GameState \<Rightarrow> MainCharacter \<Rightarrow> MainCharacter" where
  "update_x state c =
     (let c1 = c\<lparr>x := x c + velocityX c\<rparr>
      in if x c1 < 0 then c1\<lparr>x := state_width state\<rparr>
         else if x c1 > state_width state then c1\<lparr>x := 0\<rparr>
         else c1)"

text \<open>Lines 138-140: vertical move, then \<^verbatim>\<open>onGround = false\<close>.\<close>

definition update_y :: "MainCharacter \<Rightarrow> MainCharacter" where
  "update_y c = (c\<lparr>y := y c + velocityY c\<rparr>)\<lparr>onGround := False\<rparr>"

text \<open>Lines 144-149: the condition of the \<^verbatim>\<open>if\<close> inside the loop over the platforms,
  read on the character as it stands when the loop reaches the platform.\<close>

definition landing :: "MainCharacter \<Rightarrow> Dimension \<Rightarrow> bool" where
  "landing c d \<longleftrightarrow>
     y c + height c \<le> dim_y d \<and>
     y c + height c + velocityY c \<ge> dim_y d \<and>
     x c + width c > dim_x d \<and>
     x c < dim_x d + dim_width d"

text \<open>Lines 143-153: the loop body.\<close>

definition collide_step :: "MainCharacter \<Rightarrow> RectGameObject \<Rightarrow> MainCharacter" where
  "collide_step c platform =
     (let d = getDimension platform
      in if landing c d
         then ((c\<lparr>onGround := True\<rparr>)\<lparr>y := dim_y d - height c\<rparr>)\<lparr>velocityY := 0\<rparr>
         else c)"

text \<open>Lines 123-140: everything before the loop.\<close>

definition integrate :: "GameState \<Rightarrow> MainCharacter \<Rightarrow> MainCharacter" where
  "integrate state c = update_y (update_x state (update_gravity c))"

text \<open>\<^verbatim>\<open>MainCharacter.update(platforms, state)\<close>: the character and the state are
  mutated in place in the source and returned here.\<close>

definition update :: "RectGameObject list \<Rightarrow> GameState \<Rightarrow> MainCharacter \<Rightarrow> MainCharacter \<times> GameState" where
  "update ps state c =
     (let c1 = update_gravity c;
          state1 = update_loose c1 state;
          c2 = update_x state1 c1;
          c3 = update_y c2
      in (foldl collide_step c3 ps, state1))"

subsection \<open>Movement commands\<close>

definition moveLeft :: "MainCharacter \<Rightarrow> MainCharacter" where
  "moveLeft c = c\<lparr>velocityX := - speed c\<rparr>"

definition moveRight :: "MainCharacter \<Rightarrow> MainCharacter" where
  "moveRight c = c\<lparr>velocityX := speed c\<rparr>"

definition stopMoving :: "MainCharacter \<Rightarrow> MainCharacter" where
  "stopMoving c = c\<lparr>velocityX := 0\<rparr>"

definition jump :: "MainCharacter \<Rightarrow> MainCharacter" where
  "jump c =
     (if onGround c then (c\<lparr>velocityY := jumpStrength c\<rparr>)\<lparr>onGround := False\<rparr> else c)"

section \<open>Level\<close>

text \<open>\<^verbatim>\<open>Math.random()\<close> is a parameter \<open>rnd\<close> of every function that draws from it.\<close>

definition getRandomFloat :: "real \<Rightarrow> real \<Rightarrow> real \<Rightarrow> real" where
  "getRandomFloat rnd lo hi = rnd * (hi - lo) + lo"

definition addPlatform :: "RectGameObject \<Rightarrow> Level \<Rightarrow> Level" where
  "addPlatform platform lvl = lvl\<lparr>platforms := platforms lvl @ [platform]\<rparr>"

text \<open>The optional argument \<^verbatim>\<open>height?\<close> is an option; \<^verbatim>\<open>height ?? -state.cameraOffset\<close>.\<close>

definition spawnPlatform :: "real \<Rightarrow> GameState \<Rightarrow> real option \<Rightarrow> Level \<Rightarrow> Level" where
  "spawnPlatform rnd state h lvl =
     lvl\<lparr>platforms := platforms lvl @
       [new_RectGameObject (getRandomFloat rnd 0 (state_width state - 80))
          (case h of Some v \<Rightarrow> v | None \<Rightarrow> - cameraOffset state) 80 10 ''brown'']\<rparr>"

text \<open>Line 214: the local \<^verbatim>\<open>drop\<close>, the value the filter callback returns: \<open>True\<close>
  keeps the platform.\<close>

definition drop_flag :: "GameState \<Rightarrow> RectGameObject \<Rightarrow> bool" where
  "drop_flag state p \<longleftrightarrow> dim_y (getDimension p) + cameraOffset state < state_height state"

text \<open>\<^verbatim>\<open>Level.update(player, state)\<close>; the player is any \<^verbatim>\<open>GameObject\<close>. The flag
  \<^verbatim>\<open>spawn\<close> is set by the filter callback on every platform it rejects.\<close>

definition Level_update :: "real \<Rightarrow> 'a GameObject_scheme \<Rightarrow> GameState \<Rightarrow> Level \<Rightarrow> Level \<times> GameState" where
  "Level_update rnd player state lvl =
     (let distance = state_height state * 0.65;
          scroll = (startScrolling lvl \<or> y player \<le> distance);
          lvl1 = (if scroll then lvl\<lparr>startScrolling := True\<rparr> else lvl);
          state1 = (if scroll then state\<lparr>cameraOffset := cameraOffset state + 2\<rparr> else state);
          spawn = list_ex (\<lambda>p. \<not> drop_flag state1 p) (platforms lvl1);
          lvl2 = lvl1\<lparr>platforms := filter (drop_flag state1) (platforms lvl1)\<rparr>
      in (if spawn then spawnPlatform rnd state1 None lvl2 else lvl2, state1))"

definition reset :: "Level \<Rightarrow> Level" where
  "reset lvl = (lvl\<lparr>platforms := []\<rparr>)\<lparr>startScrolling := False\<rparr>"

section \<open>The game loop\<close>

text \<open>
  One call of \<^verbatim>\<open>gameLoop\<close>. The canvas, the sounds and the click listener are left out.
  The result carries the three mutated objects and whether the call ended with
  \<^verbatim>\<open>requestAnimationFrame\<close>, that is whether another call follows.
\<close>

type_synonym game = "GameState \<times> Level \<times> MainCharacter"

definition gameLoop :: "(MainCharacter \<Rightarrow> MainCharacter) \<Rightarrow> real \<Rightarrow> game \<Rightarrow> game \<times> bool" where
  "gameLoop handlePlayerInput rnd g =
     (case g of (state, level, player) \<Rightarrow>
        (case status state of
           GAME \<Rightarrow>
             (let player1 = handlePlayerInput player;
                  (player2, state1) = update (platforms level) state player1;
                  (level1, state2) = Level_update rnd player2 state1 level
              in ((state2, level1, player2), True))
         | LOOSE \<Rightarrow> ((state\<lparr>cameraOffset := 0\<rparr>, level, player), False)))"

text \<open>The frames of a run: each frame supplies the input handler (the keys held) and the
  random number of that frame; a frame runs only when the previous call asked for it.\<close>

fun frames :: "((MainCharacter \<Rightarrow> MainCharacter) \<times> real) list \<Rightarrow> game \<Rightarrow> game" where
  "frames [] g = g"
| "frames ((h, rnd) # fs) g =
     (case gameLoop h rnd g of (g', again) \<Rightarrow> if again then frames fs g' else g')"

text \<open>\<^verbatim>\<open>handlePlayerInput\<close> of \<^verbatim>\<open>startGame\<close>; a key that was never pressed is
  \<^verbatim>\<open>undefined\<close>, which is falsy.\<close>

definition handlePlayerInput :: "(string \<Rightarrow> bool) \<Rightarrow> MainCharacter \<Rightarrow> MainCharacter" where
  "handlePlayerInput keys player =
     (let player1 =
        (if keys ''ArrowLeft'' \<or> keys ''a'' then moveLeft player
         else if keys ''ArrowRight'' \<or> keys ''d'' then moveRight player
         else stopMoving player)
      in if keys ''ArrowUp'' \<or> keys ''w'' then jump player1 else player1)"

text \<open>The state and the player \<^verbatim>\<open>startGame\<close> builds, for an image of the given size.\<close>

definition start_state :: GameState where
  "start_state = \<lparr>cameraOffset = 0, state_height = 700, state_width = 400, status = GAME, points = 0\<rparr>"

definition start_player :: "real \<Rightarrow> real \<Rightarrow> MainCharacter" where
  "start_player image_width image_height =
     new_MainCharacter ((state_width start_state - image_width) / 2)
       (state_height start_state - image_width * 2) image_width image_height"

text \<open>Successive calls of \<^verbatim>\<open>Level.update\<close> on one level and one state, each with the
  random number and the player position of its tick.\<close>

fun Level_updates :: "(real \<times> 'a GameObject_scheme) list \<Rightarrow> GameState \<Rightarrow> Level \<Rightarrow> Level \<times> GameState" where
  "Level_updates [] state lvl = (lvl, state)"
| "Level_updates ((rnd, player) # ticks) state lvl =
     (case Level_update rnd player state lvl of (lvl', state') \<Rightarrow> Level_updates ticks state' lvl')"

subsection \<open>Concrete objects for the examples\<close>

text \<open>A 40 by 40 image puts the player at \<open>x = 180\<close>, \<open>y = 620\<close>; \<open>ground\<close> is the
  ground platform of \<^verbatim>\<open>startGame\<close>, \<open>ledge py\<close> a spawned platform at height \<open>py\<close>
  whose random number was one half.\<close>

definition frog :: MainCharacter where
  "frog = start_player 40 40"

definition ground :: RectGameObject where
  "ground = new_RectGameObject (- 20) 690 440 10 ''green''"

definition ledge :: "real \<Rightarrow> RectGameObject" where
  "ledge py = new_RectGameObject 160 py 80 10 ''brown''"

definition no_keys :: "string \<Rightarrow> bool" where
  "no_keys k = False"

definition late_state :: GameState where
  "late_state = start_state\<lparr>cameraOffset := 100\<rparr>"

definition late_level :: Level where
  "late_level = \<lparr>platforms = [ledge 400], startScrolling = True\<rparr>"

section \<open>MainCharacter.update with rounded arithmetic\<close>

text \<open>
  The definitions above compute in exact reals. The source computes in IEEE 754 doubles:
  every addition and subtraction is rounded to the nearest double. The definitions of this
  section repeat lines 122-154 with a rounding function \<open>fl\<close> applied to the result of
  every addition and subtraction, in the order the source evaluates them; with the
  identity for \<open>fl\<close> they are the exact definitions, with \<open>binary64\<close> they are
  the doubles of the source.
\<close>

text \<open>The number of binary digits of a natural number.\<close>

fun bits :: "nat \<Rightarrow> nat" where
  "bits n = (if n = 0 then 0 else Suc (bits (n div 2)))"

declare bits.simps [simp del]

text \<open>The binary exponent of a non-zero real: the \<open>e\<close> with \<open>2 ^ e \<le> \<bar>r\<bar> < 2 ^ (e + 1)\<close>.\<close>

definition exponent :: "real \<Rightarrow> int" where
  "exponent r =
     (if \<bar>r\<bar> \<ge> 1 then int (bits (nat \<lfloor>\<bar>r\<bar>\<rfloor>)) - 1
      else - int (bits (nat (\<lceil>1 / \<bar>r\<bar>\<rceil> - 1))))"

text \<open>Rounding to the nearest integer, a tie going to the even one.\<close>

definition round_even :: "real \<Rightarrow> int" where
  "round_even q =
     (let f = \<lfloor>q\<rfloor>; d = q - of_int f
      in if d < 1 / 2 then f else if d > 1 / 2 then f + 1 else if even f then f else f + 1)"

text \<open>Rounding to the nearest number with a significand of 53 bits, ties to even: the
  rounding of IEEE 754 binary64 for every result in the normal range (no overflow, no
  subnormal result), which is where the examples below stay.\<close>

definition binary64 :: "real \<Rightarrow> real" where
  "binary64 r =
     (if r = 0 then 0
      else (let e = exponent r - 52 in of_int (round_even (r / 2 powi e)) * 2 powi e))"

definition update_gravity_fl :: "(real \<Rightarrow> real) \<Rightarrow> MainCharacter \<Rightarrow> MainCharacter" where
  "update_gravity_fl fl c =
     (if \<not> onGround c then c\<lparr>velocityY := fl (velocityY c + gravity c)\<rparr> else c)"

definition update_loose_fl :: "(real \<Rightarrow> real) \<Rightarrow> MainCharacter \<Rightarrow> GameState \<Rightarrow> GameState" where
  "update_loose_fl fl c state =
     (if y c \<ge> fl (cameraOffset state + state_height state) then state\<lparr>status := LOOSE\<rparr>
      else state)"

definition update_x_fl :: "(real \<Rightarrow> real) \<Rightarrow> GameState \<Rightarrow> MainCharacter \<Rightarrow> MainCharacter" where
  "update_x_fl fl state c =
     (let c1 = c\<lparr>x := fl (x c + velocityX c)\<rparr>
      in if x c1 < 0 then c1\<lparr>x := state_width state\<rparr>
         else if x c1 > state_width state then c1\<lparr>x := 0\<rparr>
         else c1)"

definition update_y_fl :: "(real \<Rightarrow> real) \<Rightarrow> MainCharacter \<Rightarrow> MainCharacter" where
  "update_y_fl fl c = (c\<lparr>y := fl (y c + velocityY c)\<rparr>)\<lparr>onGround := False\<rparr>"

text \<open>Line 146 is \<^verbatim>\<open>(this.y + this.height) + this.velocityY\<close>: two rounded additions.\<close>

definition landing_fl :: "(real \<Rightarrow> real) \<Rightarrow> MainCharacter \<Rightarrow> Dimension \<Rightarrow> bool" where
  "landing_fl fl c d \<longleftrightarrow>
     fl (y c + height c) \<le> dim_y d \<and>
     fl (fl (y c + height c) + velocityY c) \<ge> dim_y d \<and>
     fl (x c + width c) > dim_x d \<and>
     x c < fl (dim_x d + dim_width d)"

definition collide_step_fl :: "(real \<Rightarrow> real) \<Rightarrow> MainCharacter \<Rightarrow> RectGameObject \<Rightarrow> MainCharacter" where
  "collide_step_fl fl c platform =
     (let d = getDimension platform
      in if landing_fl fl c d
         then ((c\<lparr>onGround := True\<rparr>)\<lparr>y := fl (dim_y d - height c)\<rparr>)\<lparr>velocityY := 0\<rparr>
         else c)"

definition update_fl :: "(real \<Rightarrow> real) \<Rightarrow> RectGameObject list \<Rightarrow> GameState \<Rightarrow> MainCharacter \<Rightarrow> MainCharacter \<times> GameState" where
  "update_fl fl ps state c =
     (let c1 = update_gravity_fl fl c;
          state1 = update_loose_fl fl c1 state;
          c2 = update_x_fl fl state1 c1;
          c3 = update_y_fl fl c2
      in (foldl (collide_step_fl fl) c3 ps, state1))"

subsection \<open>Concrete objects in doubles\<close>

text \<open>A platform whose top is the double written \<^verbatim>\<open>0.3\<close>, the player falling towards it
  with the double written \<^verbatim>\<open>0.7\<close> for its gravity, and the player as \<^verbatim>\<open>update\<close>
  returns it.\<close>

definition soft_ledge :: RectGameObject where
  "soft_ledge = new_RectGameObject 160 (binary64 0.3) 80 10 ''brown''"

definition double_frog :: MainCharacter where
  "double_frog = frog\<lparr>y := - 45, velocityY := 4, gravity := binary64 0.7\<rparr>"

definition landed_frog :: MainCharacter where
  "landed_frog = fst (update_fl binary64 [soft_ledge] start_state double_frog)"

section \<open>Unfolding the model on concrete inputs\<close>

lemmas model_defs =
  update_def update_gravity_def update_loose_def update_x_def update_y_def collide_step_def
  landing_def integrate_def getDimension_def new_RectGameObject_def new_MainCharacter_def
  Level_update_def spawnPlatform_def drop_flag_def getRandomFloat_def gameLoop_def
  handlePlayerInput_def moveLeft_def moveRight_def stopMoving_def jump_def
  start_state_def start_player_def frog_def ground_def ledge_def no_keys_def
  late_state_def late_level_def Let_def

section \<open>The collision loop\<close>

text \<open>One pass of the loop body either leaves the character alone or performs the three
  assignments of lines 150-152.\<close>

lemma collide_step_cases:
  "collide_step c p = c \<or>
   collide_step c p = c\<lparr>y := dim_y (getDimension p) - height c, velocityY := 0, onGround := True\<rparr>"
  by (simp add: collide_step_def Let_def)

text \<open>The whole loop: the character is untouched, or it carries the three assignments for
  one platform of the list; the other fields are those it entered the loop with.\<close>

lemma collide_cases:
  "foldl collide_step c ps = c \<or>
   (\<exists>p \<in> set ps. foldl collide_step c ps =
      c\<lparr>y := dim_y (getDimension p) - height c, velocityY := 0, onGround := True\<rparr>)"
proof (induction ps arbitrary: c)
  case Nil
  show ?case by simp
next
  case (Cons q qs)
  let ?c1 = "collide_step c q"
  from collide_step_cases [of c q] show ?case
  proof
    assume same: "?c1 = c"
    with Cons.IH [of c] show ?thesis by auto
  next
    assume hit: "?c1 = c\<lparr>y := dim_y (getDimension q) - height c, velocityY := 0, onGround := True\<rparr>"
    from Cons.IH [of ?c1] show ?thesis
    proof
      assume "foldl collide_step ?c1 qs = ?c1"
      with hit show ?thesis by auto
    next
      assume "\<exists>p \<in> set qs. foldl collide_step ?c1 qs =
        ?c1\<lparr>y := dim_y (getDimension p) - height ?c1, velocityY := 0, onGround := True\<rparr>"
      then obtain p where "p \<in> set qs" and
        "foldl collide_step ?c1 qs =
          ?c1\<lparr>y := dim_y (getDimension p) - height ?c1, velocityY := 0, onGround := True\<rparr>"
        by blast
      with hit show ?thesis by auto
    qed
  qed
qed




section \<open>The two results of update\<close>

lemma update_x_width: "update_x (update_loose c' state) c = update_x state c"
  by (simp add: update_x_def update_loose_def Let_def)

lemma fst_update: "fst (update ps state c) = foldl collide_step (integrate state c) ps"
  by (simp add: update_def integrate_def Let_def update_x_width)

lemma snd_update: "snd (update ps state c) = update_loose c state"
  by (simp add: update_def Let_def update_loose_def update_gravity_def)

lemma integrate_fields:
  "height (integrate state c) = height c"
  "width (integrate state c) = width c"
  "onGround (integrate state c) = False"
  "velocityY (integrate state c) = (if onGround c then velocityY c else velocityY c + gravity c)"
  "y (integrate state c) = y c + (if onGround c then velocityY c else velocityY c + gravity c)"
  "x (integrate state c) =
     (if x c + velocityX c < 0 then state_width state
      else if x c + velocityX c > state_width state then 0
      else x c + velocityX c)"
  by (simp_all add: integrate_def update_y_def update_x_def update_gravity_def Let_def)

section \<open>Landing on a platform\<close>




text \<open>Why the first platform: two ledges at 578 and 582 both meet the loop's condition
  for a bottom edge at 575 moving by 10; the player ends on the first, at \<open>y = 538\<close>,
  and not at 542, where the second would put it.\<close>

lemma first_landing_wins_example:
  "landing (integrate start_state (frog\<lparr>y := 525, velocityY := 9.3\<rparr>)) (getDimension (ledge 578)) \<and>
   landing (integrate start_state (frog\<lparr>y := 525, velocityY := 9.3\<rparr>)) (getDimension (ledge 582)) \<and>
   y (fst (update [ledge 578, ledge 582] start_state (frog\<lparr>y := 525, velocityY := 9.3\<rparr>))) = 538 \<and>
   dim_y (getDimension (ledge 582)) - height frog = 542"
  by (simp add: model_defs)

section \<open>Grounded means standing on a platform\<close>

subsection \<open>The rounding function\<close>

lemma bits_bounds: "0 < n \<Longrightarrow> 2 ^ (bits n - 1) \<le> n \<and> n < 2 ^ bits n"
proof (induction n rule: bits.induct)
  case (1 n)
  show ?case
  proof (cases "n div 2 = 0")
    case True
    with "1.prems" have "n = 1" by (simp add: div_eq_0_iff)
    then show ?thesis by (simp add: bits.simps)
  next
    case False
    with "1.IH" "1.prems" have ih: "2 ^ (bits (n div 2) - 1) \<le> n div 2" "n div 2 < 2 ^ bits (n div 2)"
      by auto
    have b: "bits n = Suc (bits (n div 2))" using "1.prems" by (subst bits.simps) simp
    have pos: "0 < bits (n div 2)" using False by (subst bits.simps) simp
    then have e: "2 ^ bits (n div 2) = (2::nat) * 2 ^ (bits (n div 2) - 1)"
      by (cases "bits (n div 2)") simp_all
    from ih e have "2 ^ bits (n div 2) \<le> 2 * (n div 2)" by simp
    moreover have "2 * (n div 2) \<le> n" by simp
    moreover from ih have "n < 2 * 2 ^ bits (n div 2)" by linarith
    ultimately show ?thesis by (simp add: b)
  qed
qed

text \<open>\<open>exponent\<close> is the binary exponent.\<close>

lemma exponent_bounds:
  assumes "r \<noteq> 0"
  shows "2 powi exponent r \<le> \<bar>r\<bar> \<and> \<bar>r\<bar> < 2 powi (exponent r + 1)"
proof (cases "\<bar>r\<bar> \<ge> 1")
  case True
  define n where "n = nat \<lfloor>\<bar>r\<bar>\<rfloor>"
  from True have n: "0 < n" and le: "real n \<le> \<bar>r\<bar>" and lt: "\<bar>r\<bar> < real n + 1"
    by (simp_all add: n_def)
  from bits_bounds [OF n] have b: "2 ^ (bits n - 1) \<le> n" "n < 2 ^ bits n" by simp_all
  have pos: "0 < bits n" using n by (subst bits.simps) simp
  have e: "exponent r = int (bits n) - 1" using True by (simp add: exponent_def n_def)
  have "(2::real) powi (int (bits n) - 1) = 2 ^ (bits n - 1)"
    using pos by (simp add: power_int_def nat_diff_distrib')
  also have "\<dots> \<le> real n" using b(1) by (metis of_nat_le_iff of_nat_numeral of_nat_power)
  finally have l: "2 powi exponent r \<le> \<bar>r\<bar>" using le by (simp add: e)
  from b(2) have "n + 1 \<le> 2 ^ bits n" by simp
  then have "real n + 1 \<le> 2 ^ bits n"
    by (metis of_nat_le_iff of_nat_numeral of_nat_power of_nat_Suc Suc_eq_plus1 add.commute)
  with lt have "\<bar>r\<bar> < 2 powi (exponent r + 1)" by (simp add: e)
  with l show ?thesis by simp
next
  case False
  define a where "a = \<bar>r\<bar>"
  define m where "m = nat (\<lceil>1 / a\<rceil> - 1)"
  from False assms have a: "0 < a" "a < 1" by (simp_all add: a_def)
  then have inv: "1 < 1 / a" by simp
  then have c2: "2 \<le> \<lceil>1 / a\<rceil>" by linarith
  then have m: "0 < m" by (simp add: m_def)
  have mlt: "real m < 1 / a" and mge: "1 / a \<le> real m + 1"
    using c2 by (simp_all add: m_def) linarith+
  from bits_bounds [OF m] have b: "2 ^ (bits m - 1) \<le> m" "m < 2 ^ bits m" by simp_all
  have pos: "0 < bits m" using m by (subst bits.simps) simp
  have e: "exponent r = - int (bits m)" using False by (simp add: exponent_def m_def a_def)
  from b(2) have "m + 1 \<le> 2 ^ bits m" by simp
  then have "real m + 1 \<le> 2 ^ bits m"
    by (metis of_nat_le_iff of_nat_numeral of_nat_power of_nat_Suc Suc_eq_plus1 add.commute)
  with mge have "1 / a \<le> 2 ^ bits m" by simp
  with a have "1 \<le> a * 2 ^ bits m" by (simp add: field_simps)
  then have l: "2 powi exponent r \<le> a"
    by (simp add: e power_int_minus field_simps)
  have "(2::real) ^ (bits m - 1) \<le> real m"
    using b(1) by (metis of_nat_le_iff of_nat_numeral of_nat_power)
  with mlt have "2 ^ (bits m - 1) < 1 / a" by linarith
  with a have "a < inverse (2 ^ (bits m - 1))" by (simp add: field_simps)
  moreover have "(2::real) powi (exponent r + 1) = inverse (2 ^ (bits m - 1))"
  proof -
    have "exponent r + 1 = - int (bits m - 1)" using pos by (simp add: e)
    then show ?thesis by (simp add: power_int_minus)
  qed
  ultimately have "a < 2 powi (exponent r + 1)" by simp
  with l show ?thesis by (simp add: a_def)
qed

lemma round_even_near: "\<bar>of_int (round_even q) - q\<bar> \<le> 1 / 2"
  unfolding round_even_def Let_def by (simp; linarith)

text \<open>\<open>binary64 r\<close> is an integer times the unit in the last place, the integer is the
  rounding of a significand between \<open>2 ^ 52\<close> and \<open>2 ^ 53\<close>, and the result is within
  half a unit of \<open>r\<close>.\<close>

lemma binary64_significand:
  assumes "r \<noteq> 0"
  shows "binary64 r = of_int (round_even (r / 2 powi (exponent r - 52))) * 2 powi (exponent r - 52) \<and>
         2 ^ 52 \<le> \<bar>r / 2 powi (exponent r - 52)\<bar> \<and> \<bar>r / 2 powi (exponent r - 52)\<bar> < 2 ^ 53"
proof -
  from exponent_bounds [OF assms]
  have l: "2 powi exponent r \<le> \<bar>r\<bar>" and h: "\<bar>r\<bar> < 2 powi (exponent r + 1)" by simp_all
  have s: "(2::real) powi (exponent r - 52) = 2 powi exponent r / 2 ^ 52"
    by (simp add: power_int_diff)
  have t: "(2::real) powi (exponent r + 1) = 2 powi exponent r * 2"
    by (simp add: power_int_add)
  have p: "(0::real) < 2 powi exponent r" by simp
  have q: "\<bar>r / 2 powi (exponent r - 52)\<bar> = \<bar>r\<bar> * 2 ^ 52 / 2 powi exponent r"
    by (simp add: s abs_divide abs_mult)
  have b: "binary64 r =
      of_int (round_even (r / 2 powi (exponent r - 52))) * 2 powi (exponent r - 52)"
    using assms by (simp add: binary64_def Let_def)
  have "2 ^ 52 \<le> \<bar>r\<bar> * 2 ^ 52 / 2 powi exponent r"
    using l p by (simp add: field_simps)
  then have lo: "2 ^ 52 \<le> \<bar>r / 2 powi (exponent r - 52)\<bar>" unfolding q .
  from h have "\<bar>r\<bar> < 2 powi exponent r * 2" unfolding t .
  then have "\<bar>r\<bar> * 2 ^ 52 / 2 powi exponent r < 2 ^ 53"
    using p by (simp add: field_simps)
  then have hi: "\<bar>r / 2 powi (exponent r - 52)\<bar> < 2 ^ 53" unfolding q .
  from b lo hi show ?thesis by blast
qed

lemma binary64_nearest:
  assumes "r \<noteq> 0"
  shows "\<bar>binary64 r - r\<bar> \<le> 2 powi (exponent r - 52) / 2"
proof -
  define u :: real where "u = 2 powi (exponent r - 52)"
  have u: "0 < u" by (simp add: u_def)
  have "binary64 r - r = (of_int (round_even (r / u)) - r / u) * u"
    using assms u by (simp add: binary64_def u_def Let_def field_simps)
  then have "\<bar>binary64 r - r\<bar> = \<bar>of_int (round_even (r / u)) - r / u\<bar> * u"
    using u by (simp add: abs_mult)
  also have "\<dots> \<le> 1 / 2 * u"
    using round_even_near [of "r / u"] u by (intro mult_right_mono) simp_all
  finally show ?thesis by (simp add: u_def)
qed

subsection \<open>The rounded update\<close>

text \<open>Without rounding the definitions of this section are the exact ones.\<close>

lemma update_fl_exact: "update_fl (\<lambda>r. r) ps state c = update ps state c"
proof -
  have "collide_step_fl (\<lambda>r. r) = collide_step"
    by (simp add: fun_eq_iff collide_step_fl_def collide_step_def landing_fl_def landing_def)
  then show ?thesis
    by (simp add: update_fl_def update_def update_gravity_fl_def update_gravity_def
        update_loose_fl_def update_loose_def update_x_fl_def update_x_def
        update_y_fl_def update_y_def)
qed

lemma update_x_fl_if:
  "update_x_fl fl state c =
     (if fl (x c + velocityX c) < 0 then c\<lparr>x := state_width state\<rparr>
      else if fl (x c + velocityX c) > state_width state then c\<lparr>x := 0\<rparr>
      else c\<lparr>x := fl (x c + velocityX c)\<rparr>)"
  by (simp add: update_x_fl_def Let_def)

lemma collide_step_fl_if:
  "collide_step_fl fl c p =
     (if landing_fl fl c (getDimension p)
      then c\<lparr>y := fl (dim_y (getDimension p) - height c), velocityY := 0, onGround := True\<rparr>
      else c)"
  by (simp add: collide_step_fl_def Let_def)

lemma fst_update_fl:
  "fst (update_fl fl ps state c) =
     foldl (collide_step_fl fl) (update_y_fl fl (update_x_fl fl state (update_gravity_fl fl c))) ps"
  by (simp add: update_fl_def Let_def update_x_fl_if update_loose_fl_def)

lemma collide_fl_cases:
  "foldl (collide_step_fl fl) c ps = c \<or>
   (\<exists>p \<in> set ps. foldl (collide_step_fl fl) c ps =
      c\<lparr>y := fl (dim_y (getDimension p) - height c), velocityY := 0, onGround := True\<rparr>)"
proof (induction ps arbitrary: c)
  case Nil
  show ?case by simp
next
  case (Cons q qs)
  let ?c1 = "collide_step_fl fl c q"
  show ?case
  proof (cases "landing_fl fl c (getDimension q)")
    case False
    then have "?c1 = c" by (simp add: collide_step_fl_if)
    with Cons.IH [of c] show ?thesis by auto
  next
    case True
    then have hit: "?c1 =
        c\<lparr>y := fl (dim_y (getDimension q) - height c), velocityY := 0, onGround := True\<rparr>"
      by (simp add: collide_step_fl_if)
    from Cons.IH [of ?c1] show ?thesis
    proof
      assume "foldl (collide_step_fl fl) ?c1 qs = ?c1"
      with hit show ?thesis by auto
    next
      assume "\<exists>p \<in> set qs. foldl (collide_step_fl fl) ?c1 qs =
        ?c1\<lparr>y := fl (dim_y (getDimension p) - height ?c1), velocityY := 0, onGround := True\<rparr>"
      then obtain p where "p \<in> set qs" and
        "foldl (collide_step_fl fl) ?c1 qs =
          ?c1\<lparr>y := fl (dim_y (getDimension p) - height ?c1), velocityY := 0, onGround := True\<rparr>"
        by blast
      with hit show ?thesis by auto
    qed
  qed
qed

lemma loop_entry_fl:
  "onGround (update_y_fl fl c) = False"
  "height (update_y_fl fl (update_x_fl fl state (update_gravity_fl fl c))) = height c"
  by (simp_all add: update_y_fl_def update_x_fl_if update_gravity_fl_def)

text \<open>
  Claim C10, as the code has it. Whenever \<^verbatim>\<open>update\<close> returns with \<open>onGround\<close> set, the
  vertical velocity is zero and \<open>y\<close> is the value line 151 assigned for a platform of
  the list that was passed in: the platform's \<open>y\<close> minus the character's height, as
  the arithmetic of the code computes that difference. This holds for every rounding
  function, the identity (exact arithmetic) and \<open>binary64\<close> (the doubles of the source)
  among them.
\<close>

theorem update_fl_onGround_on_platform:
  assumes "onGround (fst (update_fl fl ps state c))"
  shows "velocityY (fst (update_fl fl ps state c)) = 0 \<and>
         (\<exists>p \<in> set ps.
            y (fst (update_fl fl ps state c)) = fl (dim_y (getDimension p) - height c))"
proof -
  let ?c3 = "update_y_fl fl (update_x_fl fl state (update_gravity_fl fl c))"
  let ?r = "foldl (collide_step_fl fl) ?c3 ps"
  have r: "fst (update_fl fl ps state c) = ?r" by (rule fst_update_fl)
  from assms have on: "onGround ?r" by (simp add: r)
  have h: "height ?c3 = height c" by (rule loop_entry_fl)
  from collide_fl_cases [of fl ?c3 ps] obtain p where p: "p \<in> set ps"
    and e: "?r = ?c3\<lparr>y := fl (dim_y (getDimension p) - height ?c3), velocityY := 0, onGround := True\<rparr>"
  proof
    assume "?r = ?c3"
    with on have "onGround ?c3" by simp
    then show ?thesis by (simp add: loop_entry_fl)
  next
    assume "\<exists>p \<in> set ps. ?r =
      ?c3\<lparr>y := fl (dim_y (getDimension p) - height ?c3), velocityY := 0, onGround := True\<rparr>"
    then show ?thesis using that by blast
  qed
  have "velocityY ?r = 0" by (subst e) simp
  moreover have "y ?r = fl (dim_y (getDimension p) - height c)" by (subst e) (simp add: h)
  ultimately show ?thesis using p unfolding r by blast
qed

text \<open>Evaluating the rounded update of the example.\<close>

lemmas double_eval =
  fst_update_fl update_gravity_fl_def update_x_fl_if update_y_fl_def
  collide_step_fl_if landing_fl_def binary64_def exponent_def round_even_def bits.simps
  soft_ledge_def double_frog_def getDimension_def new_RectGameObject_def new_MainCharacter_def
  start_state_def start_player_def frog_def Let_def

lemma landed_frog_value:
  "landed_frog =
     double_frog\<lparr>velocityY := 0, onGround := True, y := - 2793639143853261 / 2 ^ 46\<rparr>"
  unfolding landed_frog_def by (simp add: double_eval)

lemma soft_ledge_top: "dim_y (getDimension soft_ledge) = 5404319552844595 / 2 ^ 54"
  by (simp add: double_eval)

theorem update_fl_onGround_on_platform_witness:
  "onGround (fst (update_fl binary64 [soft_ledge] start_state double_frog)) \<and>
   velocityY (fst (update_fl binary64 [soft_ledge] start_state double_frog)) = 0 \<and>
   y (fst (update_fl binary64 [soft_ledge] start_state double_frog))
     = binary64 (dim_y (getDimension soft_ledge) - height double_frog)"
proof -
  have g: "onGround (fst (update_fl binary64 [soft_ledge] start_state double_frog))"
    using landed_frog_value by (simp add: landed_frog_def)
  from update_fl_onGround_on_platform [OF g] g show ?thesis by simp
qed

text \<open>
  Claim C10 as worded fails in the arithmetic of the source. The player lands on the
  platform whose top is the double \<^verbatim>\<open>0.3\<close>: \<^verbatim>\<open>update\<close> returns with \<open>onGround\<close> set,
  the velocity zero and \<open>y\<close> the double nearest to \<open>0.3 - 40\<close>. The bottom edge
  \<open>y + height\<close> is then \<open>21110623253299 / 2 ^ 46\<close>, about 0.29999999999999716, a double
  itself and not the top of the platform, the only one of the list. The next call of
  \<^verbatim>\<open>update\<close> on this player no longer finds it on the platform.
\<close>

theorem landed_bottom_edge_misses_platform_top:
  "onGround landed_frog \<and>
   velocityY landed_frog = 0 \<and>
   y landed_frog = binary64 (dim_y (getDimension soft_ledge) - height double_frog) \<and>
   y landed_frog + height landed_frog \<noteq> dim_y (getDimension soft_ledge) \<and>
   binary64 (y landed_frog + height landed_frog) \<noteq> dim_y (getDimension soft_ledge) \<and>
   \<not> onGround (fst (update_fl binary64 [soft_ledge] start_state landed_frog))"
proof -
  have a: "onGround landed_frog" "velocityY landed_frog = 0"
    by (simp_all add: landed_frog_value)
  have b: "y landed_frog = binary64 (dim_y (getDimension soft_ledge) - height double_frog)"
    by (simp add: landed_frog_value soft_ledge_top) (simp add: double_eval)
  have c: "y landed_frog + height landed_frog = 21110623253299 / 2 ^ 46"
    by (simp add: landed_frog_value) (simp add: double_eval)
  have d: "binary64 (21110623253299 / 2 ^ 46) = 21110623253299 / 2 ^ 46"
    by (simp add: double_eval)
  have e: "\<not> onGround (fst (update_fl binary64 [soft_ledge] start_state landed_frog))"
    by (simp add: landed_frog_value) (simp add: double_eval)
  have f: "y landed_frog + height landed_frog \<noteq> dim_y (getDimension soft_ledge)"
    by (simp add: c soft_ledge_top)
  have "binary64 (y landed_frog + height landed_frog) = 21110623253299 / 2 ^ 46"
    by (simp only: c d)
  then have g: "binary64 (y landed_frog + height landed_frog) \<noteq> dim_y (getDimension soft_ledge)"
    by (simp add: soft_ledge_top)
  from a b f g e show ?thesis by blast
qed

text \<open>In exact arithmetic the bottom edge is the top of the platform: the difference and
  the sum cancel. This is the case of the tops and heights the game itself produces,
  which are integers.\<close>

lemma update_onGround_exact:
  assumes "onGround (fst (update ps state c))"
  shows "velocityY (fst (update ps state c)) = 0 \<and>
         (\<exists>p \<in> set ps.
            y (fst (update ps state c)) + height (fst (update ps state c))
              = dim_y (getDimension p))"
proof -
  let ?c3 = "integrate state c"
  let ?r = "foldl collide_step ?c3 ps"
  from assms have on: "onGround ?r" by (simp add: fst_update)
  from collide_cases [of ?c3 ps] obtain p where p: "p \<in> set ps"
    and r: "?r = ?c3\<lparr>y := dim_y (getDimension p) - height ?c3, velocityY := 0, onGround := True\<rparr>"
  proof
    assume "?r = ?c3"
    with on have "onGround ?c3" by simp
    then show ?thesis by (simp add: integrate_fields)
  next
    assume "\<exists>p \<in> set ps. ?r =
      ?c3\<lparr>y := dim_y (getDimension p) - height ?c3, velocityY := 0, onGround := True\<rparr>"
    then show ?thesis using that by blast
  qed
  have "velocityY ?r = 0" by (subst r) simp
  moreover have "y ?r + height ?r = dim_y (getDimension p)" by (subst r, subst r) simp
  ultimately show ?thesis using p by (auto simp: fst_update)
qed

section \<open>The loss check\<close>

text \<open>
  Claim C5: \<^verbatim>\<open>update\<close> sets the status to \<open>LOOSE\<close> exactly when the \<open>y\<close> the
  character enters the tick with (its position at the end of the previous tick) is at
  least \<open>cameraOffset + height\<close> of the state, and leaves the state alone otherwise; the
  position updates of the tick come after the check and do not enter it.
\<close>

theorem update_loose_check:
  "snd (update ps state c) =
     (if y c \<ge> cameraOffset state + state_height state then state\<lparr>status := LOOSE\<rparr> else state)"
  by (simp add: snd_update update_loose_def)

text \<open>At \<open>y = 700\<close> the run is lost; from \<open>y = 690\<close> the player moves to 710.7 in
  this tick and the status is still \<open>GAME\<close>.\<close>

theorem update_loose_check_witness:
  "status (snd (update [] start_state (frog\<lparr>y := 700\<rparr>))) = LOOSE \<and>
   status (snd (update [] start_state (frog\<lparr>y := 690, velocityY := 20\<rparr>))) = GAME \<and>
   y (fst (update [] start_state (frog\<lparr>y := 690, velocityY := 20\<rparr>))) = 710.7"
  using update_loose_check [of "[]" start_state "frog\<lparr>y := 700\<rparr>"]
    update_loose_check [of "[]" start_state "frog\<lparr>y := 690, velocityY := 20\<rparr>"]
  by (simp add: model_defs)

section \<open>Horizontal wrap\<close>

text \<open>
  Claim C6: after \<open>x += velocityX\<close>, a negative \<open>x\<close> becomes the width of the state, an
  \<open>x\<close> strictly greater than the width becomes 0, and any other \<open>x\<close> (the width itself
  included) stays; the platforms do not change \<open>x\<close>. There is no vertical wrap: \<open>y\<close>
  is the moved position, or the position on top of one of the platforms.
\<close>

theorem update_horizontal_wrap:
  "x (fst (update ps state c)) =
     (if x c + velocityX c < 0 then state_width state
      else if x c + velocityX c > state_width state then 0
      else x c + velocityX c) \<and>
   (y (fst (update ps state c))
      = y c + (if onGround c then velocityY c else velocityY c + gravity c) \<or>
    (\<exists>p \<in> set ps. y (fst (update ps state c)) = dim_y (getDimension p) - height c))"
proof -
  let ?c3 = "integrate state c"
  from collide_cases [of ?c3 ps] show ?thesis
  proof
    assume "foldl collide_step ?c3 ps = ?c3"
    then show ?thesis by (simp add: fst_update integrate_fields)
  next
    assume "\<exists>p \<in> set ps. foldl collide_step ?c3 ps =
      ?c3\<lparr>y := dim_y (getDimension p) - height ?c3, velocityY := 0, onGround := True\<rparr>"
    then obtain p where "p \<in> set ps" and
      "foldl collide_step ?c3 ps =
        ?c3\<lparr>y := dim_y (getDimension p) - height ?c3, velocityY := 0, onGround := True\<rparr>"
      by blast
    then show ?thesis by (auto simp: fst_update integrate_fields)
  qed
qed

text \<open>With a width of 400: 401 wraps to 0, 400 stays, \<open>-3\<close> wraps to 400, 0 stays.\<close>

theorem update_horizontal_wrap_witness:
  "x (fst (update [] start_state (frog\<lparr>x := 396, velocityX := 5\<rparr>))) = 0 \<and>
   x (fst (update [] start_state (frog\<lparr>x := 395, velocityX := 5\<rparr>))) = 400 \<and>
   x (fst (update [] start_state (frog\<lparr>x := 2, velocityX := - 5\<rparr>))) = 400 \<and>
   x (fst (update [] start_state (frog\<lparr>x := 5, velocityX := - 5\<rparr>))) = 0"
  using update_horizontal_wrap [of "[]" start_state "frog\<lparr>x := 396, velocityX := 5\<rparr>"]
    update_horizontal_wrap [of "[]" start_state "frog\<lparr>x := 395, velocityX := 5\<rparr>"]
    update_horizontal_wrap [of "[]" start_state "frog\<lparr>x := 2, velocityX := - 5\<rparr>"]
    update_horizontal_wrap [of "[]" start_state "frog\<lparr>x := 5, velocityX := - 5\<rparr>"]
  by (simp add: model_defs)

section \<open>Gravity\<close>

text \<open>
  Claim C8: the gravity step is the first step of \<^verbatim>\<open>update\<close>; it adds \<open>gravity\<close> to
  the vertical velocity when the character enters the tick airborne and leaves the
  velocity unchanged when it enters grounded. The moves and the loop work on its result:
  the tick ends with that velocity, or with zero after a landing.
\<close>

theorem update_gravity_airborne_only:
  "fst (update ps state c) =
     foldl collide_step (update_y (update_x state (update_gravity c))) ps \<and>
   velocityY (update_gravity c) = (if onGround c then velocityY c else velocityY c + gravity c) \<and>
   y (update_y (update_x state (update_gravity c))) = y c + velocityY (update_gravity c) \<and>
   velocityY (fst (update ps state c)) =
     (if onGround (fst (update ps state c)) then 0 else velocityY (update_gravity c))"
proof -
  let ?c3 = "integrate state c"
  have g: "velocityY (update_gravity c) = (if onGround c then velocityY c else velocityY c + gravity c)"
    by (simp add: update_gravity_def)
  have m: "y (update_y (update_x state (update_gravity c))) = y c + velocityY (update_gravity c)"
    using integrate_fields(5) [of state c] by (simp add: integrate_def g)
  have v: "velocityY (foldl collide_step ?c3 ps) =
      (if onGround (foldl collide_step ?c3 ps) then 0 else velocityY (update_gravity c))"
    using collide_cases [of ?c3 ps] by (auto simp: integrate_fields g)
  from g m v show ?thesis
    using fst_update [of ps state c] by (simp add: integrate_def)
qed

theorem update_gravity_airborne_only_witness:
  "\<not> onGround frog \<and>
   velocityY (fst (update [] start_state frog)) = 0.7 \<and>
   y (fst (update [] start_state frog)) = 620.7 \<and>
   onGround (frog\<lparr>onGround := True\<rparr>) \<and>
   velocityY (fst (update [] start_state (frog\<lparr>onGround := True\<rparr>))) = 0 \<and>
   y (fst (update [] start_state (frog\<lparr>onGround := True\<rparr>))) = 620"
  using update_gravity_airborne_only [of "[]" start_state frog]
    update_gravity_airborne_only [of "[]" start_state "frog\<lparr>onGround := True\<rparr>"]
  by (simp add: model_defs)

section \<open>Movement commands\<close>

text \<open>
  Claim C9: any positive number of calls of \<^verbatim>\<open>stopMoving\<close> gives the state one call
  gives, with \<open>velocityX = 0\<close>; \<^verbatim>\<open>jump\<close> on an airborne character changes nothing;
  \<^verbatim>\<open>jump\<close> on a grounded character sets the vertical velocity to \<open>jumpStrength\<close> and
  clears \<open>onGround\<close>, and nothing else.
\<close>

theorem stopMoving_jump_commands:
  "velocityX ((stopMoving ^^ Suc n) c) = 0 \<and>
   (stopMoving ^^ Suc n) c = stopMoving c \<and>
   (\<not> onGround c \<longrightarrow> jump c = c) \<and>
   (onGround c \<longrightarrow> jump c = c\<lparr>velocityY := jumpStrength c, onGround := False\<rparr>)"
proof -
  have "(stopMoving ^^ Suc n) c = stopMoving c"
    by (induction n) (simp_all add: stopMoving_def)
  then show ?thesis by (simp add: stopMoving_def jump_def)
qed

theorem stopMoving_jump_commands_witness:
  "velocityX ((stopMoving ^^ Suc 2) (moveRight frog)) = 0 \<and>
   \<not> onGround frog \<and> jump frog = frog \<and>
   onGround (frog\<lparr>onGround := True\<rparr>) \<and>
   velocityY (jump (frog\<lparr>onGround := True\<rparr>)) = - 15 \<and>
   \<not> onGround (jump (frog\<lparr>onGround := True\<rparr>))"
proof -
  have a: "\<not> onGround frog" and b: "onGround (frog\<lparr>onGround := True\<rparr>)"
    and j: "jumpStrength frog = - 15"
    by (simp_all add: frog_def start_player_def new_MainCharacter_def)
  from stopMoving_jump_commands [of 2 "moveRight frog"] stopMoving_jump_commands [of 0 frog]
    stopMoving_jump_commands [of 0 "frog\<lparr>onGround := True\<rparr>"]
    a b j show ?thesis by (simp add: stopMoving_def)
qed

section \<open>Level.update\<close>

lemma Level_update_state:
  "snd (Level_update rnd player state lvl) =
     (if startScrolling lvl \<or> y player \<le> state_height state * 0.65
      then state\<lparr>cameraOffset := cameraOffset state + 2\<rparr> else state)"
  by (simp add: Level_update_def Let_def)

lemma Level_update_latch:
  "startScrolling (fst (Level_update rnd player state lvl)) \<longleftrightarrow>
     startScrolling lvl \<or> y player \<le> state_height state * 0.65"
  by (simp add: Level_update_def Let_def spawnPlatform_def)

lemma Level_update_platforms:
  "platforms (fst (Level_update rnd player state lvl)) =
     filter (drop_flag (snd (Level_update rnd player state lvl))) (platforms lvl) @
     (if list_ex (\<lambda>p. \<not> drop_flag (snd (Level_update rnd player state lvl)) p) (platforms lvl)
      then [new_RectGameObject
              (getRandomFloat rnd 0 (state_width (snd (Level_update rnd player state lvl)) - 80))
              (- cameraOffset (snd (Level_update rnd player state lvl))) 80 10 ''brown'']
      else [])"
  by (simp add: Level_update_def Let_def spawnPlatform_def)

subsection \<open>Recycling\<close>

text \<open>
  Claim C3: \<^verbatim>\<open>Level.update\<close> removes exactly the platforms whose screen-space \<open>y\<close>,
  \<open>y + cameraOffset\<close> with the offset of this tick after scrolling, has reached the height
  of the viewport, and keeps the others in their order. If at least one platform was
  removed it appends exactly one new platform, 80 by 10, at the height \<open>- cameraOffset\<close>,
  however many were removed; if none was removed it appends nothing.
\<close>

theorem Level_update_recycles_once:
  "platforms (fst (Level_update rnd player state lvl)) =
     filter (\<lambda>p. \<not> dim_y (getDimension p) + cameraOffset (snd (Level_update rnd player state lvl))
                      \<ge> state_height state) (platforms lvl) @
     (if \<exists>p \<in> set (platforms lvl).
            dim_y (getDimension p) + cameraOffset (snd (Level_update rnd player state lvl))
              \<ge> state_height state
      then [new_RectGameObject (getRandomFloat rnd 0 (state_width state - 80))
              (- cameraOffset (snd (Level_update rnd player state lvl))) 80 10 ''brown'']
      else [])"
proof -
  let ?s = "snd (Level_update rnd player state lvl)"
  have h: "state_height ?s = state_height state" and w: "state_width ?s = state_width state"
    by (simp_all add: Level_update_state)
  have d: "drop_flag ?s = (\<lambda>p. \<not> dim_y (getDimension p) + cameraOffset ?s \<ge> state_height state)"
    by (simp add: drop_flag_def h fun_eq_iff not_le)
  show ?thesis
    by (subst Level_update_platforms) (simp add: d w list_ex_iff)
qed

text \<open>With the offset going from 100 to 102, the platforms at 690, 600 and 598 are
  removed, those at 500 and 597 stay, and one platform is appended, not three.\<close>

theorem Level_update_recycles_once_witness:
  "platforms (fst (Level_update (1 / 2) frog late_state
      \<lparr>platforms = [ground, ledge 500, ledge 600, ledge 597, ledge 598], startScrolling = True\<rparr>))
   = [ledge 500, ledge 597, new_RectGameObject 160 (- 102) 80 10 ''brown'']"
  using Level_update_recycles_once [of "1 / 2" frog late_state
      "\<lparr>platforms = [ground, ledge 500, ledge 600, ledge 597, ledge 598], startScrolling = True\<rparr>"]
  by (simp add: model_defs)

subsection \<open>The scroll latch\<close>

lemma Level_updates_latched:
  "startScrolling lvl \<Longrightarrow>
   startScrolling (fst (Level_updates ticks state lvl)) \<and>
   cameraOffset (snd (Level_updates ticks state lvl)) = cameraOffset state + 2 * real (length ticks)"
proof (induction ticks arbitrary: state lvl)
  case Nil
  then show ?case by simp
next
  case (Cons t ticks)
  obtain rnd player where t: "t = (rnd, player)" by (cases t)
  let ?l = "fst (Level_update rnd player state lvl)"
  let ?s = "snd (Level_update rnd player state lvl)"
  have step: "Level_updates (t # ticks) state lvl = Level_updates ticks ?s ?l"
    by (simp add: t split: prod.splits)
  from Cons.prems have "startScrolling ?l" by (simp add: Level_update_latch)
  from Cons.IH [OF this, of ?s] Cons.prems show ?case
    by (simp add: step Level_update_state algebra_simps)
qed

text \<open>
  Claim C4: a call of \<^verbatim>\<open>Level.update\<close> in which the player's \<open>y\<close> is at most 0.65
  times the height of the viewport sets \<open>startScrolling\<close> and adds 2 to \<open>cameraOffset\<close>;
  after any further calls, whatever the player's positions in them, \<open>startScrolling\<close> is
  still set and \<open>cameraOffset\<close> has grown by exactly 2 in each of them.
\<close>

theorem Level_update_scroll_latch:
  assumes "y player \<le> state_height state * 0.65"
  shows "startScrolling (fst (Level_update rnd player state lvl)) \<and>
         cameraOffset (snd (Level_update rnd player state lvl)) = cameraOffset state + 2 \<and>
         startScrolling
           (fst (Level_updates ticks (snd (Level_update rnd player state lvl))
                  (fst (Level_update rnd player state lvl)))) \<and>
         cameraOffset
           (snd (Level_updates ticks (snd (Level_update rnd player state lvl))
                  (fst (Level_update rnd player state lvl))))
           = cameraOffset state + 2 + 2 * real (length ticks)"
proof -
  have l: "startScrolling (fst (Level_update rnd player state lvl))"
    using assms by (simp add: Level_update_latch)
  have s: "cameraOffset (snd (Level_update rnd player state lvl)) = cameraOffset state + 2"
    using assms by (simp add: Level_update_state)
  from Level_updates_latched [OF l, of ticks "snd (Level_update rnd player state lvl)"] l s
  show ?thesis by simp
qed

text \<open>Viewport 400 by 700: the player reaches \<open>y = 455\<close>, then descends to 600 and 650;
  the latch holds and the offset is 6 after the three calls.\<close>

theorem Level_update_scroll_latch_witness:
  "y (frog\<lparr>y := 455\<rparr>) \<le> state_height start_state * 0.65 \<and>
   \<not> startScrolling new_Level \<and>
   startScrolling (fst (Level_update 0 (frog\<lparr>y := 455\<rparr>) start_state new_Level)) \<and>
   cameraOffset (snd (Level_update 0 (frog\<lparr>y := 455\<rparr>) start_state new_Level)) = 2 \<and>
   startScrolling (fst (Level_updates [(0, frog\<lparr>y := 600\<rparr>), (0, frog\<lparr>y := 650\<rparr>)]
      (snd (Level_update 0 (frog\<lparr>y := 455\<rparr>) start_state new_Level))
      (fst (Level_update 0 (frog\<lparr>y := 455\<rparr>) start_state new_Level)))) \<and>
   cameraOffset (snd (Level_updates [(0, frog\<lparr>y := 600\<rparr>), (0, frog\<lparr>y := 650\<rparr>)]
      (snd (Level_update 0 (frog\<lparr>y := 455\<rparr>) start_state new_Level))
      (fst (Level_update 0 (frog\<lparr>y := 455\<rparr>) start_state new_Level)))) = 6"
proof -
  have h: "y (frog\<lparr>y := 455\<rparr>) \<le> state_height start_state * 0.65"
    by (simp add: start_state_def)
  have n: "\<not> startScrolling new_Level" and c: "cameraOffset start_state = 0"
    by (simp_all add: new_Level_def start_state_def)
  from Level_update_scroll_latch
    [OF h, of 0 new_Level "[(0, frog\<lparr>y := 600\<rparr>), (0, frog\<lparr>y := 650\<rparr>)]"] h n c
  show ?thesis by simp
qed

section \<open>The game loop\<close>

lemma gameLoop_GAME:
  "status state = GAME \<Longrightarrow>
   gameLoop h rnd (state, level, player) =
     ((snd (Level_update rnd (fst (update (platforms level) state (h player)))
              (snd (update (platforms level) state (h player))) level),
       fst (Level_update rnd (fst (update (platforms level) state (h player)))
              (snd (update (platforms level) state (h player))) level),
       fst (update (platforms level) state (h player))), True)"
  by (simp add: gameLoop_def Let_def split: prod.splits)

lemma gameLoop_LOOSE:
  "status state = LOOSE \<Longrightarrow>
   gameLoop h rnd (state, level, player) = ((state\<lparr>cameraOffset := 0\<rparr>, level, player), False)"
  by (simp add: gameLoop_def)

lemma frames_LOOSE:
  "status state = LOOSE \<Longrightarrow>
   frames fs (state, level, player) =
     (if fs = [] then (state, level, player) else (state\<lparr>cameraOffset := 0\<rparr>, level, player))"
  by (cases fs) (auto simp: gameLoop_LOOSE)

subsection \<open>The camera offset over the ticks\<close>

text \<open>
  Claim C2, as the code has it. In a call of \<^verbatim>\<open>gameLoop\<close> that starts with the status
  \<open>GAME\<close>, \<open>cameraOffset\<close> does not decrease: it is unchanged when scrolling has not
  latched by the end of the call and grows by 2 when it has, and a latch that was set
  stays set. The call that starts with the status \<open>LOOSE\<close>, the last of the run, sets
  \<open>cameraOffset\<close> to 0; no restart is involved.
\<close>

theorem gameLoop_cameraOffset:
  assumes "gameLoop h rnd (state, level, player) = ((state', level', player'), again)"
  shows "(status state = GAME \<longrightarrow>
            cameraOffset state' =
              (if startScrolling level' then cameraOffset state + 2 else cameraOffset state) \<and>
            cameraOffset state \<le> cameraOffset state' \<and>
            (startScrolling level \<longrightarrow> startScrolling level')) \<and>
         (status state = LOOSE \<longrightarrow> cameraOffset state' = 0)"
proof (cases "status state")
  case GAME
  let ?p = "fst (update (platforms level) state (h player))"
  let ?s = "snd (update (platforms level) state (h player))"
  from assms GAME have s': "state' = snd (Level_update rnd ?p ?s level)"
    and l': "level' = fst (Level_update rnd ?p ?s level)"
    by (auto simp: gameLoop_GAME)
  have cam: "cameraOffset ?s = cameraOffset state" and hgt: "state_height ?s = state_height state"
    by (simp_all add: snd_update update_loose_def)
  show ?thesis
    using GAME by (simp add: s' l' Level_update_state Level_update_latch cam hgt)
next
  case LOOSE
  with assms show ?thesis by (auto simp: gameLoop_LOOSE)
qed

theorem gameLoop_cameraOffset_witness:
  "status late_state = GAME \<and>
   cameraOffset (fst (fst (gameLoop (handlePlayerInput no_keys) 0
      (late_state, late_level, frog\<lparr>y := 805, velocityY := 20\<rparr>)))) = 102 \<and>
   status (late_state\<lparr>status := LOOSE\<rparr>) = LOOSE \<and>
   cameraOffset (fst (fst (gameLoop (handlePlayerInput no_keys) 0
      (late_state\<lparr>status := LOOSE\<rparr>, late_level, frog\<lparr>y := 805, velocityY := 20\<rparr>)))) = 0"
proof -
  let ?g1 = "gameLoop (handlePlayerInput no_keys) 0
      (late_state, late_level, frog\<lparr>y := 805, velocityY := 20\<rparr>)"
  let ?g2 = "gameLoop (handlePlayerInput no_keys) 0
      (late_state\<lparr>status := LOOSE\<rparr>, late_level, frog\<lparr>y := 805, velocityY := 20\<rparr>)"
  have s1: "status late_state = GAME" and s2: "status (late_state\<lparr>status := LOOSE\<rparr>) = LOOSE"
    by (simp_all add: late_state_def start_state_def)
  have l: "startScrolling (fst (snd (fst ?g1)))"
    by (simp add: model_defs)
  have c: "cameraOffset late_state = 100"
    by (simp add: late_state_def)
  have e1: "?g1 = ((fst (fst ?g1), fst (snd (fst ?g1)), snd (snd (fst ?g1))), snd ?g1)"
    and e2: "?g2 = ((fst (fst ?g2), fst (snd (fst ?g2)), snd (snd (fst ?g2))), snd ?g2)"
    by simp_all
  from gameLoop_cameraOffset [OF e1] gameLoop_cameraOffset [OF e2] s1 s2 l c
  show ?thesis by simp
qed

text \<open>
  Claim C2 as worded fails. Scrolling has latched and the offset is 100; the player has
  fallen to \<open>y = 805\<close>. The first call of \<^verbatim>\<open>gameLoop\<close> sets the status to \<open>LOOSE\<close>
  and moves the offset to 102; the second call, the one that draws the end of the run,
  sets the offset to 0 (line 284). The offset has decreased from one tick to the next
  without \<^verbatim>\<open>startGame\<close> being called.
\<close>

theorem cameraOffset_reset_by_loose_frame:
  "cameraOffset (fst (frames [(handlePlayerInput no_keys, 0)]
      (late_state, late_level, frog\<lparr>y := 805, velocityY := 20\<rparr>))) = 102 \<and>
   cameraOffset (fst (frames [(handlePlayerInput no_keys, 0), (handlePlayerInput no_keys, 0)]
      (late_state, late_level, frog\<lparr>y := 805, velocityY := 20\<rparr>))) = 0"
  by (simp add: model_defs)

subsection \<open>The end of the run\<close>

lemma Level_update_status:
  "status (snd (Level_update rnd player state lvl)) = status state"
  by (simp add: Level_update_state)

text \<open>
  Claim C7, as the code has it. A call of \<^verbatim>\<open>gameLoop\<close> that starts with the status
  \<open>LOOSE\<close> changes neither the character nor the level (its platform list included) and
  does not ask for another animation frame, so whatever frames would follow, the
  character and the level stay as they are. A call that starts with the status \<open>GAME\<close>
  always runs the character update and \<^verbatim>\<open>Level.update\<close> to their end and asks for
  another frame, also when the character update has set the status to \<open>LOOSE\<close>; in that
  case the one call it asks for is the last of the run: it resets \<open>cameraOffset\<close> and
  leaves the character and the level as this tick left them.
\<close>

theorem gameLoop_last_calls:
  "(status state = LOOSE \<longrightarrow>
      snd (gameLoop h rnd (state, level, player)) = False \<and>
      fst (snd (fst (gameLoop h rnd (state, level, player)))) = level \<and>
      snd (snd (fst (gameLoop h rnd (state, level, player)))) = player \<and>
      fst (snd (frames fs (state, level, player))) = level \<and>
      snd (snd (frames fs (state, level, player))) = player \<and>
      status (fst (frames fs (state, level, player))) = LOOSE) \<and>
   (status state = GAME \<longrightarrow>
      gameLoop h rnd (state, level, player) =
        ((snd (Level_update rnd (fst (update (platforms level) state (h player)))
                 (snd (update (platforms level) state (h player))) level),
          fst (Level_update rnd (fst (update (platforms level) state (h player)))
                 (snd (update (platforms level) state (h player))) level),
          fst (update (platforms level) state (h player))), True) \<and>
      (status (snd (update (platforms level) state (h player))) = LOOSE \<longrightarrow>
         frames ((h, rnd) # (h', rnd') # fs) (state, level, player) =
           ((snd (Level_update rnd (fst (update (platforms level) state (h player)))
                    (snd (update (platforms level) state (h player))) level))\<lparr>cameraOffset := 0\<rparr>,
            fst (Level_update rnd (fst (update (platforms level) state (h player)))
                   (snd (update (platforms level) state (h player))) level),
            fst (update (platforms level) state (h player)))))"
proof (cases "status state")
  case LOOSE
  then show ?thesis by (simp add: gameLoop_LOOSE frames_LOOSE)
next
  case GAME
  let ?p = "fst (update (platforms level) state (h player))"
  let ?s = "snd (update (platforms level) state (h player))"
  let ?l' = "fst (Level_update rnd ?p ?s level)"
  let ?s' = "snd (Level_update rnd ?p ?s level)"
  have g: "gameLoop h rnd (state, level, player) = ((?s', ?l', ?p), True)"
    using GAME by (rule gameLoop_GAME)
  have step: "frames ((h, rnd) # rest) (state, level, player) = frames rest (?s', ?l', ?p)" for rest
    by (simp add: g)
  have "frames ((h, rnd) # (h', rnd') # fs) (state, level, player) =
          (?s'\<lparr>cameraOffset := 0\<rparr>, ?l', ?p)"
    if "status ?s = LOOSE"
  proof -
    from that have "status ?s' = LOOSE" by (simp add: Level_update_status)
    from frames_LOOSE [OF this, of "(h', rnd') # fs" ?l' ?p] show ?thesis
      unfolding step by simp
  qed
  with g GAME show ?thesis by simp
qed

text \<open>A call that finds \<open>LOOSE\<close>, and the run of three frames from the tick that loses:
  the first call moves the player to 825.7 and sets \<open>LOOSE\<close>, the second resets the
  offset, the third never runs.\<close>

theorem gameLoop_last_calls_witness:
  "status (late_state\<lparr>status := LOOSE\<rparr>) = LOOSE \<and>
   \<not> snd (gameLoop (handlePlayerInput no_keys) 0
      (late_state\<lparr>status := LOOSE\<rparr>, late_level, frog\<lparr>y := 825.7\<rparr>)) \<and>
   fst (snd (frames [(handlePlayerInput no_keys, 0), (handlePlayerInput no_keys, 0)]
      (late_state\<lparr>status := LOOSE\<rparr>, late_level, frog\<lparr>y := 825.7\<rparr>))) = late_level \<and>
   snd (snd (frames [(handlePlayerInput no_keys, 0), (handlePlayerInput no_keys, 0)]
      (late_state\<lparr>status := LOOSE\<rparr>, late_level, frog\<lparr>y := 825.7\<rparr>))) = frog\<lparr>y := 825.7\<rparr> \<and>
   status late_state = GAME \<and>
   status (snd (update (platforms late_level) late_state
      (handlePlayerInput no_keys (frog\<lparr>y := 805, velocityY := 20\<rparr>)))) = LOOSE \<and>
   snd (gameLoop (handlePlayerInput no_keys) 0
      (late_state, late_level, frog\<lparr>y := 805, velocityY := 20\<rparr>)) \<and>
   frames [(handlePlayerInput no_keys, 0), (handlePlayerInput no_keys, 0), (handlePlayerInput no_keys, 0)]
      (late_state, late_level, frog\<lparr>y := 805, velocityY := 20\<rparr>)
     = (late_state\<lparr>status := LOOSE, cameraOffset := 0\<rparr>, late_level,
        frog\<lparr>y := 825.7, velocityY := 20.7\<rparr>)"
proof -
  have s: "status (late_state\<lparr>status := LOOSE\<rparr>) = LOOSE" by simp
  have t: "status late_state = GAME" by (simp add: late_state_def start_state_def)
  have u: "status (snd (update (platforms late_level) late_state
      (handlePlayerInput no_keys (frog\<lparr>y := 805, velocityY := 20\<rparr>)))) = LOOSE"
    by (simp add: model_defs)
  have v: "frames [(handlePlayerInput no_keys, 0), (handlePlayerInput no_keys, 0), (handlePlayerInput no_keys, 0)]
      (late_state, late_level, frog\<lparr>y := 805, velocityY := 20\<rparr>)
     = (late_state\<lparr>status := LOOSE, cameraOffset := 0\<rparr>, late_level,
        frog\<lparr>y := 825.7, velocityY := 20.7\<rparr>)"
    by (simp add: model_defs)
  from gameLoop_last_calls [of "late_state\<lparr>status := LOOSE\<rparr>" "handlePlayerInput no_keys" 0
      late_level "frog\<lparr>y := 825.7\<rparr>" "[(handlePlayerInput no_keys, 0), (handlePlayerInput no_keys, 0)]"] s
  have a: "\<not> snd (gameLoop (handlePlayerInput no_keys) 0
      (late_state\<lparr>status := LOOSE\<rparr>, late_level, frog\<lparr>y := 825.7\<rparr>))"
    and b: "fst (snd (frames [(handlePlayerInput no_keys, 0), (handlePlayerInput no_keys, 0)]
      (late_state\<lparr>status := LOOSE\<rparr>, late_level, frog\<lparr>y := 825.7\<rparr>))) = late_level"
    and c: "snd (snd (frames [(handlePlayerInput no_keys, 0), (handlePlayerInput no_keys, 0)]
      (late_state\<lparr>status := LOOSE\<rparr>, late_level, frog\<lparr>y := 825.7\<rparr>))) = frog\<lparr>y := 825.7\<rparr>"
    by blast+
  from gameLoop_last_calls [of late_state "handlePlayerInput no_keys" 0 late_level
      "frog\<lparr>y := 805, velocityY := 20\<rparr>"] t
  have d: "snd (gameLoop (handlePlayerInput no_keys) 0
      (late_state, late_level, frog\<lparr>y := 805, velocityY := 20\<rparr>))"
    by (metis snd_conv)
  from s a b c t u d v show ?thesis by blast
qed

text \<open>
  Claim C7 as worded fails. The offset is 100 and the player has fallen to \<open>y = 805\<close>:
  the call starts with the status \<open>GAME\<close> and the character update sets it to \<open>LOOSE\<close>
  (line 128). After that, in the same call, the player is moved to 825.7 and its velocity
  becomes 20.7, \<^verbatim>\<open>Level.update\<close> scrolls to 102, removes the platform at 598 and spawns
  one at \<open>-102\<close>, and the call asks for another animation frame.
\<close>

theorem loosing_call_updates_and_reschedules:
  "status late_state = GAME \<and>
   status (snd (update [ledge 400, ledge 598] late_state
      (handlePlayerInput no_keys (frog\<lparr>y := 805, velocityY := 20\<rparr>)))) = LOOSE \<and>
   gameLoop (handlePlayerInput no_keys) 0
      (late_state, \<lparr>platforms = [ledge 400, ledge 598], startScrolling = True\<rparr>,
       frog\<lparr>y := 805, velocityY := 20\<rparr>)
     = ((late_state\<lparr>status := LOOSE, cameraOffset := 102\<rparr>,
         \<lparr>platforms = [ledge 400, new_RectGameObject 0 (- 102) 80 10 ''brown''],
          startScrolling = True\<rparr>,
         frog\<lparr>y := 825.7, velocityY := 20.7\<rparr>), True)"
  by (simp add: model_defs)

end
